theory Spec2Isabelle
  imports Main "HOL-Library.AList" "HOL-Library.List_Lexorder" "HOL-Library.Char_ord"
begin

section \<open>Strings and the regular expressions of the Name Resolver\<close>

text \<open>
  JavaScript strings are modelled as \<^typ>\<open>string\<close>, restricted to ASCII. \<open>isSpace\<close> is
  the ASCII part of the regular-expression class \<open>\s\<close> (which is also what
  \<open>String.prototype.trim\<close> removes): tab, line feed, vertical tab, form feed, carriage
  return and space.
\<close>

definition isSpace :: "char \<Rightarrow> bool" where
  "isSpace c = (c = CHR 0x09 \<or> c = CHR 0x0A \<or> c = CHR 0x0B \<or> c = CHR 0x0C
     \<or> c = CHR 0x0D \<or> c = CHR 0x20)"

definition isDigit :: "char \<Rightarrow> bool" where
  "isDigit c = (c = CHR ''0'' \<or> c = CHR ''1'' \<or> c = CHR ''2'' \<or> c = CHR ''3''
     \<or> c = CHR ''4'' \<or> c = CHR ''5'' \<or> c = CHR ''6'' \<or> c = CHR ''7''
     \<or> c = CHR ''8'' \<or> c = CHR ''9'')"

text \<open>\<open>s.trim()\<close>\<close>

definition trim :: "string \<Rightarrow> string" where
  "trim s = rev (dropWhile isSpace (rev (dropWhile isSpace s)))"

text \<open>\<open>s.replace(/\s/g, c)\<close>: every white-space character is replaced, one by one.\<close>

definition replaceSpaces :: "string \<Rightarrow> string \<Rightarrow> string" where
  "replaceSpaces r s = concat (map (\<lambda>c. if isSpace c then r else [c]) s)"

text \<open>The character class \<open>[0-9|\.\-]\<close> of \<open>filterName\<close>.\<close>

definition isOrderChar :: "char \<Rightarrow> bool" where
  "isOrderChar c = (isDigit c \<or> c = CHR ''|'' \<or> c = CHR ''.'' \<or> c = CHR ''-'')"

text \<open>
  \<open>name.replace(/(^[0-9|\.\-]+|)(__|)/, '')\<close>. The expression has no \<open>g\<close> flag and
  matches at index 0 of every string: the first group takes the longest leading run of the
  class (or nothing), the second group takes \<open>__\<close> when it follows (or nothing), and
  the match is removed.
\<close>

definition stripOrder :: "string \<Rightarrow> string" where
  "stripOrder name =
     (let r = dropWhile isOrderChar name
      in if take 2 r = ''__'' then drop 2 r else r)"

definition filterName :: "string \<Rightarrow> bool \<Rightarrow> string" where
  "filterName name preserveNumbers =
     replaceSpaces ''-'' (trim (if preserveNumbers then name else stripOrder name))"

section \<open>The path module (POSIX)\<close>

text \<open>
  The functions of Node's \<open>path\<close> module that the code calls, as documented for POSIX
  paths. \<open>basename\<close> is the last portion of a path, trailing separators ignored.
\<close>

definition isSlash :: "char \<Rightarrow> bool" where
  "isSlash c = (c = CHR ''/'')"

definition basename :: "string \<Rightarrow> string" where
  "basename p = rev (takeWhile (\<lambda>c. \<not> isSlash c) (dropWhile isSlash (rev p)))"

text \<open>
  \<open>path.extname\<close>: from the last \<open>.\<close> of the last portion to its end; empty when
  there is no \<open>.\<close>, when the only \<open>.\<close> is the first character, and for \<open>..\<close>.
\<close>

definition extname :: "string \<Rightarrow> string" where
  "extname p =
     (let b = basename p;
          ending = rev (takeWhile (\<lambda>c. c \<noteq> CHR ''.'') (rev b));
          stem = take (length b - length ending - 1) b
      in if CHR ''.'' \<notin> set b \<or> stem = [] \<or> b = ''..'' then []
         else CHR ''.'' # ending)"

text \<open>\<open>path.basename(p, ext)\<close>: the last portion without the suffix \<open>ext\<close>.\<close>

definition basenameExt :: "string \<Rightarrow> string \<Rightarrow> string" where
  "basenameExt p ext =
     (let b = basename p
      in if ext \<noteq> [] \<and> ext = p then []
         else if ext \<noteq> [] \<and> length ext < length b
              \<and> drop (length b - length ext) b = ext
           then take (length b - length ext) b
         else b)"

section \<open>Name Resolver\<close>

definition getName :: "string \<Rightarrow> bool \<Rightarrow> string" where
  "getName filePath preserveNumbers =
     filterName (basenameExt filePath (extname filePath)) preserveNumbers"

text \<open>
  \<open>name.match(/(^[0-9\.]+|)(__)/)\<close> in \<open>isExcluded\<close>. At an index \<open>i\<close> the
  expression matches when \<open>__\<close> stands there (the empty alternative of the first group),
  or, at index 0 only, when a non-empty run of digits and dots is followed by \<open>__\<close>.
  \<open>match\<close> tries every index from left to right.
\<close>

definition isDigitDot :: "char \<Rightarrow> bool" where
  "isDigitDot c = (isDigit c \<or> c = CHR ''.'')"

definition hiddenAt :: "bool \<Rightarrow> string \<Rightarrow> bool" where
  "hiddenAt atStart s =
     ((atStart \<and> takeWhile isDigitDot s \<noteq> [] \<and> take 2 (dropWhile isDigitDot s) = ''__'')
      \<or> take 2 s = ''__'')"

fun hiddenSearch :: "bool \<Rightarrow> string \<Rightarrow> bool" where
  "hiddenSearch atStart [] = hiddenAt atStart []"
| "hiddenSearch atStart (c # cs) = (hiddenAt atStart (c # cs) \<or> hiddenSearch False cs)"

definition isExcluded :: "string \<Rightarrow> bool" where
  "isExcluded filePath = hiddenSearch True (basename filePath)"

text \<open>
  \<open>toTitleCase\<close>: \<open>-\<close> and \<open>_\<close> become spaces; then every match of \<open>\w\S*\<close> (a
  word character followed by the characters up to the next white space) gets its first
  character in upper case and the others in lower case. By then no \<open>_\<close> is left, so the
  word characters that can start a match are the letters and digits.
\<close>

definition lowerLetters :: string where
  "lowerLetters = ''abcdefghijklmnopqrstuvwxyz''"

definition upperLetters :: string where
  "upperLetters = ''ABCDEFGHIJKLMNOPQRSTUVWXYZ''"

definition isWordChar :: "char \<Rightarrow> bool" where
  "isWordChar c = (c \<in> set upperLetters \<or> c \<in> set lowerLetters \<or> isDigit c \<or> c = CHR ''_'')"

definition toUpperCase :: "char \<Rightarrow> char" where
  "toUpperCase c = (case map_of (zip lowerLetters upperLetters) c of Some u \<Rightarrow> u | None \<Rightarrow> c)"

definition toLowerCase :: "char \<Rightarrow> char" where
  "toLowerCase c = (case map_of (zip upperLetters lowerLetters) c of Some l \<Rightarrow> l | None \<Rightarrow> c)"

fun titleWords :: "bool \<Rightarrow> string \<Rightarrow> string" where
  "titleWords inWord [] = []"
| "titleWords inWord (c # cs) =
     (if inWord then
        (if isSpace c then c # titleWords False cs else toLowerCase c # titleWords True cs)
      else if isWordChar c then toUpperCase c # titleWords True cs
      else c # titleWords False cs)"

definition toTitleCase :: "string \<Rightarrow> string" where
  "toTitleCase str =
     titleWords False (map (\<lambda>c. if c = CHR ''-'' \<or> c = CHR ''_'' then CHR '' '' else c) str)"

section \<open>More of the path module\<close>

text \<open>\<open>s.split(sep)\<close> for a separator of one character: never an empty list.\<close>

fun splitOn :: "(char \<Rightarrow> bool) \<Rightarrow> string \<Rightarrow> string list" where
  "splitOn sep [] = [[]]"
| "splitOn sep (c # cs) =
     (if sep c then [] # splitOn sep cs
      else (case splitOn sep cs of [] \<Rightarrow> [[c]] | x # xs \<Rightarrow> (c # x) # xs))"

fun joinWith :: "string \<Rightarrow> string list \<Rightarrow> string" where
  "joinWith sep [] = []"
| "joinWith sep [x] = x"
| "joinWith sep (x # y # ys) = x @ sep @ joinWith sep (y # ys)"

text \<open>
  \<open>path.normalize\<close>: empty segments and \<open>.\<close> are dropped, \<open>..\<close> removes the segment
  before it (above the start of a relative path it is kept), a trailing separator is kept,
  and the empty result is \<open>.\<close>. The accumulator holds the segments kept so far, last first.
\<close>

fun normalizeSegs :: "bool \<Rightarrow> string list \<Rightarrow> string list \<Rightarrow> string list" where
  "normalizeSegs allowAboveRoot acc [] = rev acc"
| "normalizeSegs allowAboveRoot acc (s # ss) =
     (if s = [] \<or> s = ''.'' then normalizeSegs allowAboveRoot acc ss
      else if s = ''..'' then
        (case acc of
           a # as \<Rightarrow>
             if a \<noteq> ''..'' then normalizeSegs allowAboveRoot as ss
             else if allowAboveRoot then normalizeSegs allowAboveRoot (''..'' # acc) ss
             else normalizeSegs allowAboveRoot acc ss
         | [] \<Rightarrow>
             if allowAboveRoot then normalizeSegs allowAboveRoot [''..''] ss
             else normalizeSegs allowAboveRoot [] ss)
      else normalizeSegs allowAboveRoot (s # acc) ss)"

definition normalize :: "string \<Rightarrow> string" where
  "normalize p =
     (if p = [] then ''.''
      else
        let isAbsolute = isSlash (hd p);
            trailingSeparator = isSlash (last p);
            q = joinWith ''/'' (normalizeSegs (\<not> isAbsolute) [] (splitOn isSlash p))
        in if q = [] then (if isAbsolute then ''/'' else if trailingSeparator then ''./'' else ''.'')
           else (if isAbsolute then ''/'' else []) @ q @ (if trailingSeparator then ''/'' else []))"

text \<open>\<open>path.join\<close>: the non-empty arguments, joined by \<open>/\<close> and normalized.\<close>

definition join :: "string list \<Rightarrow> string" where
  "join parts =
     (let q = joinWith ''/'' (filter (\<lambda>a. a \<noteq> []) parts)
      in if q = [] then ''.'' else normalize q)"

text \<open>
  \<open>path.dirname\<close>: the path up to the separator before its last portion (trailing
  separators ignored, the first character never counted as that separator); \<open>.\<close> or
  \<open>/\<close> when there is none.
\<close>

definition dirname :: "string \<Rightarrow> string" where
  "dirname p =
     (if p = [] then ''.''
      else
        let hasRoot = isSlash (hd p);
            r = dropWhile (\<lambda>c. \<not> isSlash c) (dropWhile isSlash (rev (tl p)))
        in if r = [] then (if hasRoot then ''/'' else ''.'')
           else if hasRoot \<and> length r = 1 then ''//''
           else take (length r) p)"

text \<open>
  \<open>path.normalize(p).split(/[/\\]/)\<close>, with \<open>.pop()\<close> (the last segment) and
  \<open>.slice(-2, -1)[0]\<close> (the segment before the last, \<open>undefined\<close> when there is none).
\<close>

definition isSeparator :: "char \<Rightarrow> bool" where
  "isSeparator c = (c = CHR ''/'' \<or> c = CHR 0x5C)"

definition segments :: "string \<Rightarrow> string list" where
  "segments p = splitOn isSeparator (normalize p)"

definition secondLast :: "'a list \<Rightarrow> 'a option" where
  "secondLast xs = (if length xs < 2 then None else Some (xs ! (length xs - 2)))"

section \<open>JavaScript values and objects\<close>

text \<open>
  The values that front matter and the registry hold. Numbers are restricted to the
  integers. An object is the list of its own enumerable properties in the order
  \<open>_.forEach\<close> visits them; properties inherited from \<open>Object.prototype\<close> are outside
  the model.
\<close>

datatype jsval =
    JUndefined
  | JNull
  | JBool bool
  | JNum int
  | JStr string
  | JArr "jsval list"
  | JObj "(string \<times> jsval) list"

type_synonym jsobj = "(string \<times> jsval) list"

text \<open>
  What the code can throw: a \<open>TypeError\<close> of the language (a property of \<open>undefined\<close>),
  the \<open>SyntaxError\<close> of \<open>new RegExp\<close>, and the errors of the collaborators (front-matter
  parser, markdown and template renderers, file system). \<open>Unmodelled\<close> marks an input on
  which this model does not say what the code does.
\<close>

datatype error =
    TypeError string
  | SyntaxError string
  | External string
  | Unmodelled string

definition bindE :: "error + 'a \<Rightarrow> ('a \<Rightarrow> error + 'b) \<Rightarrow> error + 'b" where
  "bindE m f = (case m of Inl e \<Rightarrow> Inl e | Inr x \<Rightarrow> f x)"

text \<open>\<open>xs.forEach(f)\<close> for an \<open>f\<close> that updates a state and may throw.\<close>

fun forEachE :: "('a \<Rightarrow> 's \<Rightarrow> error + 's) \<Rightarrow> 'a list \<Rightarrow> 's \<Rightarrow> error + 's" where
  "forEachE f [] s = Inr s"
| "forEachE f (x # xs) s = bindE (f x s) (forEachE f xs)"

text \<open>\<open>obj[key]\<close> on an object; \<open>_.has(obj, key)\<close>.\<close>

definition propOf :: "jsobj \<Rightarrow> string \<Rightarrow> jsval" where
  "propOf obj k = (case map_of obj k of None \<Rightarrow> JUndefined | Some v \<Rightarrow> v)"

definition has :: "jsobj \<Rightarrow> string \<Rightarrow> bool" where
  "has obj k = (map_of obj k \<noteq> None)"

text \<open>
  \<open>v[key]\<close> and \<open>v[key] = x\<close> on any value: a \<open>TypeError\<close> on \<open>undefined\<close> and
  \<open>null\<close>. The module is not in strict mode, so a write to another primitive is dropped.
\<close>

definition getMember :: "jsval \<Rightarrow> string \<Rightarrow> error + jsval" where
  "getMember v k =
     (case v of
        JUndefined \<Rightarrow> Inl (TypeError (''Cannot read property '' @ k @ '' of undefined''))
      | JNull \<Rightarrow> Inl (TypeError (''Cannot read property '' @ k @ '' of null''))
      | JObj obj \<Rightarrow> Inr (propOf obj k)
      | _ \<Rightarrow> Inr JUndefined)"

definition setMember :: "jsval \<Rightarrow> string \<Rightarrow> jsval \<Rightarrow> error + jsval" where
  "setMember v k x =
     (case v of
        JUndefined \<Rightarrow> Inl (TypeError (''Cannot set property '' @ k @ '' of undefined''))
      | JNull \<Rightarrow> Inl (TypeError (''Cannot set property '' @ k @ '' of null''))
      | JObj obj \<Rightarrow> Inr (JObj (AList.update k x obj))
      | _ \<Rightarrow> Inr v)"

definition truthy :: "jsval \<Rightarrow> bool" where
  "truthy v =
     (case v of
        JUndefined \<Rightarrow> False
      | JNull \<Rightarrow> False
      | JBool b \<Rightarrow> b
      | JNum n \<Rightarrow> n \<noteq> 0
      | JStr s \<Rightarrow> s \<noteq> []
      | _ \<Rightarrow> True)"

definition objProps :: "jsval \<Rightarrow> jsobj" where
  "objProps v = (case v of JObj obj \<Rightarrow> obj | _ \<Rightarrow> [])"

text \<open>
  \<open>_.assign(target, source)\<close>: for each own key of the source, in order,
  \<open>target[key] = source[key]\<close>. \<open>_.omit(obj, key)\<close>.
\<close>

definition assign :: "jsobj \<Rightarrow> jsobj \<Rightarrow> jsobj" where
  "assign target source = fold (\<lambda>k acc. AList.update k (propOf source k) acc) (map fst source) target"

definition omit :: "jsobj \<Rightarrow> string \<Rightarrow> jsobj" where
  "omit obj k = AList.delete k obj"

text \<open>The string of a value, as \<open>+\<close> with a string operand computes it.\<close>

fun showNat :: "nat \<Rightarrow> string" where
  "showNat n =
     (if n < 10 then [''0123456789'' ! n]
      else showNat (n div 10) @ [''0123456789'' ! (n mod 10)])"

declare showNat.simps [simp del]

definition showInt :: "int \<Rightarrow> string" where
  "showInt i = (if i < 0 then ''-'' @ showNat (nat (- i)) else showNat (nat i))"

fun toStr :: "jsval \<Rightarrow> string" where
  "toStr JUndefined = ''undefined''"
| "toStr JNull = ''null''"
| "toStr (JBool b) = (if b then ''true'' else ''false'')"
| "toStr (JNum n) = showInt n"
| "toStr (JStr s) = s"
| "toStr (JArr xs) =
     joinWith '','' (map (\<lambda>x. if x = JUndefined \<or> x = JNull then [] else toStr x) xs)"
| "toStr (JObj obj) = ''[object Object]''"

section \<open>Field Namespacer\<close>

text \<open>
  The expression built in \<open>parseMaterials\<close> for a front-matter key \<open>k\<^sub>1\<dots>k\<^sub>n\<close> is
  \<open>(\{\{[#/]?)(\s?k\<^sub>1\<dots>k\<^sub>n+?\s?)(\}\})\<close> with the flag \<open>g\<close>: the key is pasted into the
  source of the expression, so the \<open>+?\<close> after it repeats its last character. The
  matcher below reads the characters of the key as themselves, which is right for a key
  without a character that is special in a regular expression (\<open>regexMeta\<close>); it tries
  the alternatives in the order of the backtracking engine. A match is returned with the
  number of characters it covers.
\<close>

definition regexMeta :: "char \<Rightarrow> bool" where
  "regexMeta c = (c \<in> set ''^$.|?*+()[]{}'' \<or> c = CHR 0x5C)"

text \<open>\<open>\s?\}\}\<close>\<close>

definition closeToken :: "string \<Rightarrow> (string \<times> nat) option" where
  "closeToken s =
     (case s of
        [] \<Rightarrow> None
      | c # cs \<Rightarrow>
          if isSpace c \<and> take 2 cs = ''}}'' then Some ([c], 3)
          else if take 2 s = ''}}'' then Some ([], 2)
          else None)"

text \<open>\<open>k+?\s?\}\}\<close>: as few repetitions of \<open>k\<close> as lead to a match.\<close>

fun lazyRepeat :: "char \<Rightarrow> string \<Rightarrow> (string \<times> nat) option" where
  "lazyRepeat k [] = None"
| "lazyRepeat k (c # cs) =
     (if c \<noteq> k then None
      else (case closeToken cs of
              Some (sp, n) \<Rightarrow> Some (k # sp, Suc n)
            | None \<Rightarrow>
                (case lazyRepeat k cs of
                   Some (m, n) \<Rightarrow> Some (k # m, Suc n)
                 | None \<Rightarrow> None)))"

text \<open>\<open>k\<^sub>1\<dots>k\<^sub>n+?\s?\}\}\<close>\<close>

definition matchKey :: "string \<Rightarrow> string \<Rightarrow> (string \<times> nat) option" where
  "matchKey key s =
     (let pre = butlast key
      in if take (length pre) s = pre then
           (case lazyRepeat (last key) (drop (length pre) s) of
              Some (m, n) \<Rightarrow> Some (pre @ m, length pre + n)
            | None \<Rightarrow> None)
         else None)"

text \<open>\<open>\s?k\<^sub>1\<dots>k\<^sub>n+?\s?\}\}\<close>: the second group, and the length with the closing braces.\<close>

definition matchP2 :: "string \<Rightarrow> string \<Rightarrow> (string \<times> nat) option" where
  "matchP2 key s =
     (case s of
        [] \<Rightarrow> matchKey key []
      | c # cs \<Rightarrow>
          if isSpace c then
            (case matchKey key cs of
               Some (m, n) \<Rightarrow> Some (c # m, Suc n)
             | None \<Rightarrow> matchKey key s)
          else matchKey key s)"

text \<open>The whole expression at the start of \<open>s\<close>: first group, second group, length.\<close>

definition matchToken :: "string \<Rightarrow> string \<Rightarrow> (string \<times> string \<times> nat) option" where
  "matchToken key s =
     (if take 2 s \<noteq> ''{{'' then None
      else
        let r = drop 2 s;
            plain = (case matchP2 key r of Some (p2, n) \<Rightarrow> Some (''{{'', p2, 2 + n) | None \<Rightarrow> None)
        in (case r of
              [] \<Rightarrow> plain
            | c # cs \<Rightarrow>
                if c = CHR ''#'' \<or> c = CHR ''/'' then
                  (case matchP2 key cs of
                     Some (p2, n) \<Rightarrow> Some (''{{'' @ [c], p2, 3 + n)
                   | None \<Rightarrow> plain)
                else plain))"

text \<open>
  \<open>content.replace(regex, function (match, p1, p2, p3) {...})\<close>: every match, from left
  to right, is replaced by \<open>p1 + id.replace(/\./g, '-') + '.' + p2.replace(/\s/g, '') + p3\<close>.
  \<open>skip\<close> counts the characters of the current match that are still to be passed over.
\<close>

fun replaceFields :: "string \<Rightarrow> string \<Rightarrow> nat \<Rightarrow> string \<Rightarrow> string" where
  "replaceFields key idDashed skip [] = []"
| "replaceFields key idDashed (Suc n) (c # cs) = replaceFields key idDashed n cs"
| "replaceFields key idDashed 0 (c # cs) =
     (case matchToken key (c # cs) of
        Some (p1, p2, len) \<Rightarrow>
          p1 @ idDashed @ ''.'' @ filter (\<lambda>x. \<not> isSpace x) p2 @ ''}}''
            @ replaceFields key idDashed (len - 1) cs
      | None \<Rightarrow> c # replaceFields key idDashed 0 cs)"

text \<open>
  One round of the loop over the fields. An empty key makes \<open>new RegExp\<close> throw (the
  \<open>+?\<close> then follows \<open>\s?\<close>: nothing to repeat).
\<close>

definition namespaceField :: "string \<Rightarrow> string \<Rightarrow> string \<Rightarrow> error + string" where
  "namespaceField idDashed key content =
     (if key = [] then Inl (SyntaxError ''Nothing to repeat'')
      else if list_ex regexMeta key then Inl (Unmodelled ''key with a special character'')
      else Inr (replaceFields key idDashed 0 content))"

definition namespaceFields :: "string \<Rightarrow> jsobj \<Rightarrow> string \<Rightarrow> error + string" where
  "namespaceFields idDashed localData content =
     forEachE (namespaceField idDashed) (map fst localData) content"

section \<open>Options, assembly data and collaborators\<close>

text \<open>
  The options that the modelled functions read. \<open>onError\<close> tells whether
  \<open>options.onError\<close> is a function; what the callback does is outside the module.
\<close>

record options =
  keys_materials :: string
  keys_views :: string
  keys_docs :: string
  dest :: string
  onError :: bool
  logErrors :: bool
  encloseInComments :: bool
  wrapAndHardResetMaterials :: bool

definition defaults :: options where
  "defaults = \<lparr> keys_materials = ''materials'', keys_views = ''views'', keys_docs = ''docs'',
     dest = ''dist'', onError = False, logErrors = False, encloseInComments = False,
     wrapAndHardResetMaterials = False \<rparr>"

text \<open>
  The \<open>assembly\<close> object of the module, and with it the partials registered with
  Handlebars (\<open>Handlebars.registerPartial\<close>).
\<close>

record assembly =
  layouts :: jsobj
  data :: jsobj
  materials :: jsobj
  materialData :: jsobj
  views :: jsobj
  docs :: jsobj

record registry = assembly +
  partials :: "(string \<times> string) list"

text \<open>What \<open>matter.read\<close> returns: the front matter and the body of a file.\<close>

record fileMatter =
  fm_data :: jsobj
  fm_content :: string

text \<open>
  The collaborators, as functions the model is given: the front-matter reader, the
  markdown renderer, Handlebars (\<open>Handlebars.compile(source)(context)\<close> with the partials
  registered so far), the file system, the legacy export block of the bundling pass
  (lines 538 to 742 of the source, whose generated text is not modelled), and the part of
  the language's conversion of strings to numbers that \<open>==\<close> needs here (whether the
  number of a string is 1).
\<close>

record 'fs world =
  matter_read :: "string \<Rightarrow> error + fileMatter"
  md_render :: "jsval \<Rightarrow> error + string"
  hb_render :: "(string \<times> string) list \<Rightarrow> string \<Rightarrow> jsobj \<Rightarrow> error + string"
  readFileSync :: "'fs \<Rightarrow> string \<Rightarrow> error + string"
  writeFileSync :: "'fs \<Rightarrow> string \<Rightarrow> string \<Rightarrow> error + 'fs"
  mkdirp_sync :: "'fs \<Rightarrow> string \<Rightarrow> error + 'fs"
  legacy_export :: "registry \<Rightarrow> jsval \<Rightarrow> string \<Rightarrow> 'fs \<Rightarrow> error + 'fs"
  toNumber_is_one :: "string \<Rightarrow> bool"

definition getMatter :: "'fs world \<Rightarrow> string \<Rightarrow> error + fileMatter" where
  "getMatter w file = matter_read w file"

section \<open>Context Builder\<close>

text \<open>
  \<open>_.assign({}, data, assembly.data, assembly.materialData, materials, views, docs, hash)\<close>;
  a source that is not an object (\<open>hash\<close> is \<open>undefined\<close> in two of the three calls)
  gives nothing.
\<close>

definition buildContext ::
  "options \<Rightarrow> 'a assembly_scheme \<Rightarrow> jsval \<Rightarrow> jsval \<Rightarrow> jsobj" where
  "buildContext opts a dat hash =
     foldl assign []
       [objProps dat, data a, materialData a,
        [(keys_materials opts, JObj (materials a))],
        [(keys_views opts, JObj (views a))],
        [(keys_docs opts, JObj (docs a))],
        objProps hash]"

section \<open>The top-level error handler\<close>

text \<open>
  A thrown error object: its own enumerable properties (the ones \<open>_.assign\<close> copies), its
  own properties that are not enumerable, and what it inherits. An \<open>Error\<close> made by the
  language or by Node (\<open>new Error(msg)\<close>, a \<open>TypeError\<close>, a file-system error) has
  \<open>message\<close> and \<open>stack\<close> as own properties that are not enumerable; the exception of
  the YAML parser assigns \<open>name\<close>, \<open>reason\<close>, \<open>mark\<close> and \<open>message\<close> in its
  constructor, which makes them enumerable.
\<close>

record exn =
  enumerable :: jsobj
  hidden :: jsobj
  inherited :: jsobj

definition nativeError :: "string \<Rightarrow> string \<Rightarrow> exn" where
  "nativeError msg stack =
     \<lparr> enumerable = [],
       hidden = [(''stack'', JStr stack), (''message'', JStr msg)],
       inherited = [(''name'', JStr ''Error''), (''message'', JStr [])] \<rparr>"

definition yamlException :: "string \<Rightarrow> jsval \<Rightarrow> string \<Rightarrow> string \<Rightarrow> exn" where
  "yamlException reason mark msg stack =
     \<lparr> enumerable = [(''name'', JStr ''YAMLException''), (''reason'', JStr reason),
         (''mark'', mark), (''message'', JStr msg)],
       hidden = [(''stack'', JStr stack)],
       inherited = [(''name'', JStr ''Error''), (''message'', JStr [])] \<rparr>"

text \<open>\<open>e[key]\<close>: own properties first, then the inherited ones.\<close>

definition exnProp :: "exn \<Rightarrow> string \<Rightarrow> jsval" where
  "exnProp e k =
     (case map_of (enumerable e) k of
        Some v \<Rightarrow> v
      | None \<Rightarrow> (case map_of (hidden e) k of Some v \<Rightarrow> v | None \<Rightarrow> propOf (inherited e) k))"

text \<open>
  What the handler does, in order: a call of \<open>options.onError\<close> with an object, a
  \<open>console.error\<close> of a line and a stack (the colours of \<open>chalk\<close> left out), and
  \<open>process.exit\<close>.
\<close>

datatype event =
    OnError jsobj
  | ConsoleError string jsval
  | Exit int

definition errorLine :: "exn \<Rightarrow> string" where
  "errorLine e = ''Error (fabricator-assemble): '' @ toStr (exnProp e ''message'') @ [CHR 0x0A]"

definition handleError :: "options \<Rightarrow> exn \<Rightarrow> event list" where
  "handleError opts e =
     (let error = assign (assign []
                    [(''name'', JStr ''Error''), (''reason'', JStr []),
                     (''message'', JStr ''An error occurred'')]) (enumerable e);
          called = (if onError opts then [OnError error] else []);
          logged = (if logErrors opts then [ConsoleError (errorLine e) (exnProp e ''stack'')]
                    else []);
          exit = (\<not> onError opts \<and> \<not> logErrors opts)
      in called @ logged
         @ (if exit then [ConsoleError (errorLine e) (exnProp e ''stack''), Exit 1] else []))"

section \<open>Material Registry\<close>

text \<open>
  \<open>filterName(path.normalize(path.dirname(file)).split(/[/\\]/).pop())\<close> and
  \<open>filterName(\<dots>.slice(-2, -1)[0])\<close>; the second throws when the directory has one
  segment only (\<open>filterName(undefined)\<close>).
\<close>

definition collectionOf :: "string \<Rightarrow> string" where
  "collectionOf file = filterName (last (segments (dirname file))) False"

definition filterSecondLast :: "string \<Rightarrow> error + string" where
  "filterSecondLast p =
     (case secondLast (segments p) of
        None \<Rightarrow> Inl (TypeError ''Cannot read property replace of undefined'')
      | Some s \<Rightarrow> Inr (filterName s False))"

definition parentOf :: "string \<Rightarrow> error + string" where
  "parentOf file = filterSecondLast (dirname file)"

fun mapE :: "('a \<Rightarrow> error + 'b) \<Rightarrow> 'a list \<Rightarrow> error + 'b list" where
  "mapE f [] = Inr []"
| "mapE f (x # xs) = bindE (f x) (\<lambda>y. bindE (mapE f xs) (\<lambda>ys. Inr (y # ys)))"

text \<open>
  \<open>dirs\<close>: the identifiers of the directories that the directory glob found (each path
  ends with a separator, so its name is the segment before the last).
\<close>

definition dirsOf :: "string list \<Rightarrow> error + string list" where
  "dirsOf dirPaths = mapE filterSecondLast dirPaths"

definition stubObject :: "string \<Rightarrow> string \<Rightarrow> jsval" where
  "stubObject nm excludePath =
     JObj [(''name'', JStr (toTitleCase nm)), (''items'', JObj []),
           (''exclude'', JBool (isExcluded excludePath))]"

text \<open>The first loop over the files: the body of its callback.\<close>

definition stubSubCollection :: "string list \<Rightarrow> string \<Rightarrow> bool" where
  "stubSubCollection dirs parent = (getName parent False \<in> set dirs)"

definition stubFile :: "string list \<Rightarrow> string \<Rightarrow> jsobj \<Rightarrow> error + jsobj" where
  "stubFile dirs file mats =
     bindE (parentOf file) (\<lambda>parent.
       let collection = collectionOf file;
           isSubCollection = stubSubCollection dirs parent;
           materialBase = (if isSubCollection then parent else collection);
           cur = propOf mats materialBase
       in Inr (AList.update materialBase
                 (if truthy cur then cur
                  else stubObject materialBase (normalize (dirname file))) mats))"

text \<open>
  \<open>content.replace(/^(\s*(\r?\n|\r))+|(\s*(\r?\n|\r))+$/g, '')\<close>: at the start, the
  leading white space up to its last line break is removed; at the end, the trailing
  white space is removed when the text ends with a line break.
\<close>

definition isLineBreak :: "char \<Rightarrow> bool" where
  "isLineBreak c = (c = CHR 0x0A \<or> c = CHR 0x0D)"

definition trimBlankLines :: "string \<Rightarrow> string" where
  "trimBlankLines content =
     (let lead = rev (dropWhile (\<lambda>c. \<not> isLineBreak c) (rev (takeWhile isSpace content)));
          s1 = drop (length lead) content
      in if s1 \<noteq> [] \<and> isLineBreak (last s1) then rev (dropWhile isSpace (rev s1)) else s1)"

text \<open>
  \<open>v == true\<close>: the number of \<open>true\<close> is 1, a number is compared with it, a string by
  its number, an object by the number of its string.
\<close>

definition looseEqTrue :: "'fs world \<Rightarrow> jsval \<Rightarrow> bool" where
  "looseEqTrue w v =
     (case v of
        JUndefined \<Rightarrow> False
      | JNull \<Rightarrow> False
      | JBool b \<Rightarrow> b
      | JNum n \<Rightarrow> n = 1
      | JStr s \<Rightarrow> toNumber_is_one w s
      | _ \<Rightarrow> toNumber_is_one w (toStr v))"

definition renderNotes :: "'fs world \<Rightarrow> jsval \<Rightarrow> error + jsval" where
  "renderNotes w notes =
     (if truthy notes then bindE (md_render w notes) (\<lambda>html. Inr (JStr html))
      else Inr (JStr []))"

text \<open>The object stored for a material; \<open>nm\<close> is the identifier its name is made from.\<close>

definition itemNode :: "'fs world \<Rightarrow> string \<Rightarrow> jsobj \<Rightarrow> string \<Rightarrow> error + jsval" where
  "itemNode w file fmd nm =
     bindE (renderNotes w (propOf fmd ''notes'')) (\<lambda>notes.
       Inr (JObj [(''name'', JStr (toTitleCase nm)),
                  (''notes'', notes),
                  (''data'', JObj (omit fmd ''notes'')),
                  (''exclude'', JBool (isExcluded file)),
                  (''bundle'', JBool (looseEqTrue w (propOf fmd ''bundle''))),
                  (''updated'', propOf fmd ''updated'')]))"

text \<open>\<open>id.split('.')[1]\<close>\<close>

definition secondPart :: "string \<Rightarrow> error + string" where
  "secondPart ident =
     (case splitOn (\<lambda>c. c = CHR ''.'') ident of
        _ # b # _ \<Rightarrow> Inr b
      | _ \<Rightarrow> Inl (TypeError ''Cannot read property replace of undefined''))"

text \<open>
  \<open>assembly.materials[parent].items[collection] =
     assembly.materials[parent].items[collection] || {...}\<close>
\<close>

definition stubSub :: "string \<Rightarrow> string \<Rightarrow> string \<Rightarrow> jsobj \<Rightarrow> error + jsobj" where
  "stubSub parent collection file mats =
     (let mp = propOf mats parent
      in bindE (getMember mp ''items'') (\<lambda>items.
         bindE (getMember items collection) (\<lambda>cur.
         bindE (setMember items collection
                  (if truthy cur then cur
                   else stubObject collection (last (segments (dirname file))))) (\<lambda>items'.
         bindE (setMember mp ''items'' items') (\<lambda>mp'.
         Inr (AList.update parent mp' mats))))))"

text \<open>\<open>assembly.materials[collection].items[key] = {...}\<close>\<close>

definition storeItem ::
  "'fs world \<Rightarrow> string \<Rightarrow> jsobj \<Rightarrow> string \<Rightarrow> string \<Rightarrow> string \<Rightarrow> jsobj \<Rightarrow> error + jsobj" where
  "storeItem w file fmd ident collection key mats =
     (let mc = propOf mats collection
      in bindE (getMember mc ''items'') (\<lambda>items.
         bindE (itemNode w file fmd ident) (\<lambda>node.
         bindE (setMember items key node) (\<lambda>items'.
         bindE (setMember mc ''items'' items') (\<lambda>mc'.
         Inr (AList.update collection mc' mats))))))"

text \<open>\<open>assembly.materials[parent].items[collection].items[key] = {...}\<close>\<close>

definition storeSubItem ::
  "'fs world \<Rightarrow> string \<Rightarrow> jsobj \<Rightarrow> string \<Rightarrow> string \<Rightarrow> string \<Rightarrow> string \<Rightarrow> jsobj
     \<Rightarrow> error + jsobj" where
  "storeSubItem w file fmd ident parent collection key mats =
     (let mp = propOf mats parent
      in bindE (getMember mp ''items'') (\<lambda>items.
         bindE (getMember items collection) (\<lambda>c.
         bindE (getMember c ''items'') (\<lambda>ci.
         bindE (secondPart ident) (\<lambda>nm.
         bindE (itemNode w file fmd nm) (\<lambda>node.
         bindE (setMember ci key node) (\<lambda>ci'.
         bindE (setMember c ''items'' ci') (\<lambda>c'.
         bindE (setMember items collection c') (\<lambda>items'.
         bindE (setMember mp ''items'' items') (\<lambda>mp'.
         Inr (AList.update parent mp' mats)))))))))))"

text \<open>The test of the second and third loops, and the identifier they build.\<close>

definition isSubCollection :: "string list \<Rightarrow> string \<Rightarrow> bool" where
  "isSubCollection dirs parent = (parent \<in> set dirs)"

definition materialId :: "bool \<Rightarrow> string \<Rightarrow> string \<Rightarrow> string" where
  "materialId sub collection file =
     (if sub then filterName collection False @ ''.'' @ getName file False
      else getName file False)"

definition dashed :: "string \<Rightarrow> string" where
  "dashed ident = map (\<lambda>c. if c = CHR ''.'' then CHR ''-'' else c) ident"

definition hardReset :: "string \<Rightarrow> string" where
  "hardReset content =
     ''<div class='' @ [CHR 0x22] @ ''hard-reset'' @ [CHR 0x22] @ '' data-toolkit>''
       @ [CHR 0x0A] @ content @ [CHR 0x0A] @ ''</div>'' @ [CHR 0x0A]"

definition enclose :: "string \<Rightarrow> string \<Rightarrow> string" where
  "enclose ident content =
     ''<!-- START '' @ [CHR 0x27] @ ident @ [CHR 0x27] @ '' -->'' @ [CHR 0x0A] @ content
       @ [CHR 0x0A] @ ''<!-- END '' @ [CHR 0x27] @ ident @ [CHR 0x27] @ '' -->'' @ [CHR 0x0A]"

text \<open>Lines 415 to 421: the two optional wrappers of a partial.\<close>

definition decorate :: "options \<Rightarrow> string \<Rightarrow> string \<Rightarrow> string" where
  "decorate opts ident content =
     (let content2 = (if wrapAndHardResetMaterials opts then hardReset content else content)
      in if encloseInComments opts then enclose ident content2 else content2)"

text \<open>The second loop over the files: the body of its callback.\<close>

definition populateFile ::
  "'fs world \<Rightarrow> options \<Rightarrow> string list \<Rightarrow> string \<Rightarrow> registry \<Rightarrow> error + registry" where
  "populateFile w opts dirs file st =
     bindE (getMatter w file) (\<lambda>fileMatter.
     bindE (parentOf file) (\<lambda>parent.
       let collection = collectionOf file;
           sub = isSubCollection dirs parent;
           ident = materialId sub collection file;
           key = materialId sub collection file;
           localData = omit (fm_data fileMatter) ''notes'';
           content = trimBlankLines (fm_content fileMatter)
       in
     bindE (if sub then stubSub parent collection file (materials st) else Inr (materials st))
       (\<lambda>mats1.
     bindE (if \<not> sub then storeItem w file (fm_data fileMatter) ident collection key mats1
            else storeSubItem w file (fm_data fileMatter) ident parent collection key mats1)
       (\<lambda>mats2.
     bindE (namespaceFields (dashed ident) localData content) (\<lambda>content1.
       Inr (st\<lparr> materials := mats2,
                 materialData := AList.update (dashed ident) (JObj localData) (materialData st),
                 partials := AList.update ident (decorate opts ident content1) (partials st) \<rparr>))))))"

section \<open>Bundler\<close>

text \<open>
  \<open>filePath.replace(/\.[0-9a-z]+$/, replacement)\<close>: the expression matches from the last
  \<open>.\<close> when only digits and lower-case letters follow it, at least one. A replacement
  with a \<open>$\<close> would be read as a pattern and is not modelled.
\<close>

definition isLowerAlnum :: "char \<Rightarrow> bool" where
  "isLowerAlnum c = (c \<in> set lowerLetters \<or> isDigit c)"

definition replaceExtension :: "string \<Rightarrow> string \<Rightarrow> error + string" where
  "replaceExtension p replacement =
     (let ending = rev (takeWhile (\<lambda>c. c \<noteq> CHR ''.'') (rev p))
      in if CHR ''.'' \<in> set p \<and> ending \<noteq> [] \<and> list_all isLowerAlnum ending then
           (if CHR ''$'' \<in> set replacement then Inl (Unmodelled ''replacement pattern'')
            else Inr (take (length p - length ending - 1) p @ replacement))
         else Inr p)"

definition bundleBaseName :: "string \<Rightarrow> string" where
  "bundleBaseName file = filterName (basenameExt file ''.html'') False"

text \<open>The path of the rendered file of a bundled material (lines 457 and 460).\<close>

definition bundlePath :: "options \<Rightarrow> string \<Rightarrow> jsval \<Rightarrow> error + string" where
  "bundlePath opts file item =
     (let filePath = normalize (join [dest opts, ''bundles'', bundleBaseName file,
                                      filterName (basename file) False])
      in bindE (getMember item ''data'') (\<lambda>d.
         bindE (getMember d ''extension'') (\<lambda>ext.
         bindE (replaceExtension filePath
                  (''.'' @ (if truthy ext then toStr ext else ''html''))) (\<lambda>p.
         Inr (filterName p False)))))"

text \<open>Lines 449 to 464: the material is rendered alone and written.\<close>

definition writeBundle ::
  "'fs world \<Rightarrow> options \<Rightarrow> registry \<Rightarrow> string \<Rightarrow> string \<Rightarrow> jsval \<Rightarrow> 'fs \<Rightarrow> error + 'fs" where
  "writeBundle w opts st file key item fs =
     bindE (getMatter w file) (\<lambda>pageMatter.
       let source = ''{{> '' @ key @ '' }}'';
           context = buildContext opts st item JUndefined
       in
     bindE (bundlePath opts file item) (\<lambda>filePath.
     bindE (mkdirp_sync w fs (dirname filePath)) (\<lambda>fs1.
     bindE (hb_render w (partials st) source context) (\<lambda>html.
     writeFileSync w fs1 filePath html))))"

text \<open>
  \<open>try { fs.writeFileSync(dest, fs.readFileSync(source)); } catch (e) {}\<close>: whatever the
  read or the write throws is dropped, and the file system is then as it was.
\<close>

definition tryCopy :: "'fs world \<Rightarrow> string \<Rightarrow> string \<Rightarrow> 'fs \<Rightarrow> 'fs" where
  "tryCopy w source target fs =
     (case readFileSync w fs source of
        Inl e \<Rightarrow> fs
      | Inr content \<Rightarrow>
          (case writeFileSync w fs target content of Inl e \<Rightarrow> fs | Inr fs' \<Rightarrow> fs'))"

text \<open>The six pairs of source and target of lines 479 to 536, in their order.\<close>

definition assetPairs :: "options \<Rightarrow> string \<Rightarrow> (string \<times> string) list" where
  "assetPairs opts baseName =
     [(normalize (join [dest opts, ''assets'', ''toolkit'', ''styles'', ''bundles'', baseName @ ''.css'']),
       normalize (join [dest opts, ''bundles'', baseName, baseName @ ''.css''])),
      (normalize (join [dest opts, ''assets'', ''toolkit'', ''scripts'', ''bundles'', baseName @ ''.js'']),
       normalize (join [dest opts, ''bundles'', baseName, baseName @ ''.js''])),
      (normalize (join [dest opts, ''assets'', ''toolkit'', ''styles'', ''toolkit.css'']),
       normalize (join [dest opts, ''bundles'', baseName, ''toolkit.css''])),
      (normalize (join [dest opts, ''assets'', ''toolkit'', ''scripts'', ''toolkit.js'']),
       normalize (join [dest opts, ''bundles'', baseName, ''toolkit.js''])),
      (normalize (join [dest opts, ''assets'', ''toolkit'', ''styles'', ''vendor'', ''vendor.css'']),
       normalize (join [dest opts, ''bundles'', baseName, ''vendor.css''])),
      (normalize (join [dest opts, ''assets'', ''toolkit'', ''scripts'', ''vendor'', ''vendor.js'']),
       normalize (join [dest opts, ''bundles'', baseName, ''vendor.js'']))]"

definition copyAssets :: "'fs world \<Rightarrow> options \<Rightarrow> string \<Rightarrow> 'fs \<Rightarrow> 'fs" where
  "copyAssets w opts baseName fs =
     fold (\<lambda>(source, target). tryCopy w source target) (assetPairs opts baseName) fs"

text \<open>
  The body of \<open>if (data && data.bundle)\<close>: the rendered file, the copies, and the legacy
  export when \<open>data.data.websphere && _.has(assembly.data, "globals")\<close>.
\<close>

definition bundleItem ::
  "'fs world \<Rightarrow> options \<Rightarrow> registry \<Rightarrow> string \<Rightarrow> string \<Rightarrow> jsval \<Rightarrow> 'fs \<Rightarrow> error + 'fs" where
  "bundleItem w opts st file key item fs =
     bindE (writeBundle w opts st file key item fs) (\<lambda>fs2.
       let fs3 = copyAssets w opts (bundleBaseName file) fs2
       in
     bindE (getMember item ''data'') (\<lambda>d.
     bindE (getMember d ''websphere'') (\<lambda>ws.
       if truthy ws \<and> has (data st) ''globals'' then legacy_export w st item file fs3
       else Inr fs3)))"

text \<open>Lines 441 to 445: the object stored for the file by the second loop.\<close>

definition lookupItem ::
  "bool \<Rightarrow> string \<Rightarrow> string \<Rightarrow> string \<Rightarrow> jsobj \<Rightarrow> error + jsval" where
  "lookupItem sub parent collection key mats =
     (if \<not> sub then
        bindE (getMember (propOf mats collection) ''items'') (\<lambda>items. getMember items key)
      else
        bindE (getMember (propOf mats parent) ''items'') (\<lambda>items.
        bindE (getMember items collection) (\<lambda>c.
        bindE (getMember c ''items'') (\<lambda>ci. getMember ci key))))"

text \<open>The third loop over the files: the body of its callback.\<close>

definition bundleFile ::
  "'fs world \<Rightarrow> options \<Rightarrow> string list \<Rightarrow> registry \<Rightarrow> string \<Rightarrow> 'fs \<Rightarrow> error + 'fs" where
  "bundleFile w opts dirs st file fs =
     (let collection = collectionOf file
      in bindE (parentOf file) (\<lambda>parent.
           let sub = isSubCollection dirs parent;
               key = materialId sub collection file
           in
         bindE (lookupItem sub parent collection key (materials st)) (\<lambda>item.
           if truthy item then
             bindE (getMember item ''bundle'') (\<lambda>b.
               if truthy b then bundleItem w opts st file key item fs else Inr fs)
           else Inr fs)))"

section \<open>parseMaterials\<close>

text \<open>
  The whole function. \<open>globbed\<close> is what \<open>globby.sync(options.materials, ...)\<close> finds
  and \<open>dirPaths\<close> what the directory glob finds.
\<close>

definition stubPass :: "string list \<Rightarrow> string list \<Rightarrow> jsobj \<Rightarrow> error + jsobj" where
  "stubPass dirs files mats = forEachE (stubFile dirs) files mats"

definition populatePass ::
  "'fs world \<Rightarrow> options \<Rightarrow> string list \<Rightarrow> string list \<Rightarrow> registry \<Rightarrow> error + registry" where
  "populatePass w opts dirs files st = forEachE (populateFile w opts dirs) files st"

definition bundlePass ::
  "'fs world \<Rightarrow> options \<Rightarrow> string list \<Rightarrow> registry \<Rightarrow> string list \<Rightarrow> 'fs \<Rightarrow> error + 'fs" where
  "bundlePass w opts dirs st files fs = forEachE (bundleFile w opts dirs st) files fs"

definition parseMaterials ::
  "'fs world \<Rightarrow> options \<Rightarrow> string list \<Rightarrow> string list \<Rightarrow> registry \<Rightarrow> 'fs
     \<Rightarrow> error + registry \<times> 'fs" where
  "parseMaterials w opts globbed dirPaths st fs =
     (let files = sort globbed
      in bindE (dirsOf dirPaths) (\<lambda>dirs.
         bindE (stubPass dirs files []) (\<lambda>mats.
         bindE (populatePass w opts dirs files (st\<lparr> materials := mats \<rparr>)) (\<lambda>st1.
         bindE (bundlePass w opts dirs st1 files fs) (\<lambda>fs1.
         Inr (st1, fs1))))))"

section \<open>A small world to run the model in\<close>

text \<open>
  Stand-ins for the collaborators: the source files with their front matter are given as
  a list, markdown and templates are returned as they are, the file system is a list of
  paths with their contents in which every directory exists, the legacy export does
  nothing, and the strings whose number is 1 are taken to be those that read \<open>1\<close> once
  trimmed.
\<close>

definition memWorld :: "(string \<times> fileMatter) list \<Rightarrow> ((string \<times> string) list) world" where
  "memWorld sources =
     \<lparr> matter_read = (\<lambda>file. case map_of sources file of
                                None \<Rightarrow> Inl (External ''ENOENT'')
                              | Some m \<Rightarrow> Inr m),
       md_render = (\<lambda>v. case v of
                            JStr s \<Rightarrow> Inr s
                          | _ \<Rightarrow> Inl (External ''Input data should be a String'')),
       hb_render = (\<lambda>ps source context. Inr source),
       readFileSync = (\<lambda>fs p. case map_of fs p of
                                 None \<Rightarrow> Inl (External ''ENOENT'')
                               | Some c \<Rightarrow> Inr c),
       writeFileSync = (\<lambda>fs p c. Inr (AList.update p c fs)),
       mkdirp_sync = (\<lambda>fs p. Inr fs),
       legacy_export = (\<lambda>st item file fs. Inr fs),
       toNumber_is_one = (\<lambda>s. trim s = ''1'') \<rparr>"

definition emptyRegistry :: registry where
  "emptyRegistry = \<lparr> layouts = [], data = [], materials = [], materialData = [], views = [],
     docs = [], partials = [] \<rparr>"

text \<open>
  A bundled material \<open>src/materials/buttons/primary.html\<close> with the front matter
  \<open>bundle: true\<close>, and the registry as the second loop leaves it for this file.
\<close>

definition demoFile :: string where
  "demoFile = ''src/materials/buttons/primary.html''"

definition demoItem :: jsval where
  "demoItem = JObj [(''name'', JStr ''Primary''), (''notes'', JStr []),
                  (''data'', JObj [(''bundle'', JBool True)]), (''exclude'', JBool False),
                  (''bundle'', JBool True), (''updated'', JUndefined)]"

definition demoRegistry :: registry where
  "demoRegistry = emptyRegistry\<lparr>
     materials := [(''buttons'', JObj [(''name'', JStr ''Buttons''),
                     (''items'', JObj [(''primary'', demoItem)]), (''exclude'', JBool False)])],
     materialData := [(''primary'', JObj [(''bundle'', JBool True)])],
     partials := [(''primary'', ''<button/>'')] \<rparr>"

definition demoWorld :: "((string \<times> string) list) world" where
  "demoWorld =
     memWorld [(demoFile, \<lparr> fm_data = [(''bundle'', JBool True)], fm_content = ''<button/>'' \<rparr>)]"

text \<open>
  A material \<open>src/materials/components/buttons/primary.html\<close> with the front matter
  \<open>title: X\<close> and the body \<open>Title: {{title}}\<close>, and the registry as the first loop
  leaves it for this file.
\<close>

definition titleFile :: string where
  "titleFile = ''src/materials/components/buttons/primary.html''"

definition titleMatter :: fileMatter where
  "titleMatter = \<lparr> fm_data = [(''title'', JStr ''X'')], fm_content = ''Title: {{title}}'' \<rparr>"

definition titleRegistry :: registry where
  "titleRegistry = emptyRegistry\<lparr>
     materials := [(''components'', stubObject ''components'' ''src/materials/components/buttons'')] \<rparr>"

text \<open>The object stored for that material, and the materials after the second loop.\<close>

definition titleNode :: jsval where
  "titleNode = JObj [(''name'', JStr ''Primary''), (''notes'', JStr []),
     (''data'', JObj [(''title'', JStr ''X'')]), (''exclude'', JBool False),
     (''bundle'', JBool False), (''updated'', JUndefined)]"

definition titleMaterials :: jsobj where
  "titleMaterials = [(''components'', JObj [(''name'', JStr ''Components''),
         (''items'', JObj [(''buttons'', JObj [(''name'', JStr ''Buttons''),
            (''items'', JObj [(''buttons.primary'', titleNode)]),
            (''exclude'', JBool False)])]),
         (''exclude'', JBool False)])]"

text \<open>
  What the round trip of that material leaves in a registry: the partial
  \<open>buttons.primary\<close> (inside the wrappers the options ask for, so bare without them)
  and the namespaced data at \<open>buttons-primary\<close>.
\<close>

abbreviation roundTrip :: "options \<Rightarrow> registry \<Rightarrow> bool" where
  "roundTrip opts s \<equiv>
     map_of (partials s) ''buttons.primary''
         = Some (decorate opts ''buttons.primary'' ''Title: {{buttons-primary.title}}'')
     \<and> (\<not> wrapAndHardResetMaterials opts \<and> \<not> encloseInComments opts \<longrightarrow>
          map_of (partials s) ''buttons.primary'' = Some ''Title: {{buttons-primary.title}}'')
     \<and> map_of (materialData s) ''buttons-primary'' = Some (JObj [(''title'', JStr ''X'')])"

section \<open>Properties of the Name Resolver\<close>


















lemma hiddenAt_occurs: "hiddenAt b s \<Longrightarrow> \<exists>i. take 2 (drop i s) = ''__''"
proof -
  assume "hiddenAt b s"
  then consider "take 2 (dropWhile isDigitDot s) = ''__''" | "take 2 s = ''__''"
    by (auto simp: hiddenAt_def)
  then show ?thesis
  proof cases
    case 1
    then have "take 2 (drop (length (takeWhile isDigitDot s)) s) = ''__''"
      by (simp add: dropWhile_eq_drop)
    then show ?thesis by blast
  next
    case 2
    then have "take 2 (drop 0 s) = ''__''" by simp
    then show ?thesis by blast
  qed
qed

lemma hiddenSearch_iff: "hiddenSearch b s \<longleftrightarrow> (\<exists>i. take 2 (drop i s) = ''__'')"
proof (induction s arbitrary: b)
  case Nil
  then show ?case by (simp add: hiddenAt_def)
next
  case (Cons c cs)
  show ?case
  proof
    assume "hiddenSearch b (c # cs)"
    then consider "hiddenAt b (c # cs)" | "hiddenSearch False cs" by auto
    then show "\<exists>i. take 2 (drop i (c # cs)) = ''__''"
    proof cases
      case 1
      then show ?thesis by (rule hiddenAt_occurs)
    next
      case 2
      then obtain i where "take 2 (drop i cs) = ''__''" using Cons.IH by blast
      then have "take 2 (drop (Suc i) (c # cs)) = ''__''" by simp
      then show ?thesis by blast
    qed
  next
    assume "\<exists>i. take 2 (drop i (c # cs)) = ''__''"
    then obtain i where i: "take 2 (drop i (c # cs)) = ''__''" by blast
    show "hiddenSearch b (c # cs)"
    proof (cases i)
      case 0
      then show ?thesis using i by (simp add: hiddenAt_def)
    next
      case (Suc j)
      then have "take 2 (drop j cs) = ''__''" using i by simp
      then have "hiddenSearch False cs" using Cons.IH by blast
      then show ?thesis by simp
    qed
  qed
qed

text \<open>
  The test of \<open>isExcluded\<close> is an occurrence of \<open>__\<close> anywhere in the last portion of
  the path: the leading run of digits and dots plays no part in the result.
\<close>

lemma isExcluded_iff: "isExcluded p \<longleftrightarrow> (\<exists>i. take 2 (drop i (basename p)) = ''__'')"
  by (simp add: isExcluded_def hiddenSearch_iff)

text \<open>
  Claim C5. \<open>isExcluded\<close> is true for \<open>02__hidden.html\<close> and false for
  \<open>02-visible.html\<close>, as the claim says; but it is also true for \<open>foo__bar.html\<close>, whose
  \<open>__\<close> does not follow a leading run of digits and dots, where the claim (and the
  function's own comment, "has leading __") requires false.
\<close>

theorem isExcluded_marker_not_leading:
  "isExcluded ''02__hidden.html'' \<and> \<not> isExcluded ''02-visible.html''
   \<and> isExcluded ''src/materials/foo__bar.html''"
  by (simp add: isExcluded_def basename_def isSlash_def hiddenAt_def isDigitDot_def isDigit_def)

lemma isExcluded_leading: "basename p = run @ ''__'' @ rest \<Longrightarrow> isExcluded p"
proof -
  assume "basename p = run @ ''__'' @ rest"
  then have "take 2 (drop (length run) (basename p)) = ''__''" by simp
  then show ?thesis unfolding isExcluded_iff by blast
qed

section \<open>Properties of the Context Builder\<close>

lemma map_of_fold_update:
  "map_of (fold (\<lambda>k acc. AList.update k (f k) acc) ks t) x
     = (if x \<in> set ks then Some (f x) else map_of t x)"
  by (induction ks arbitrary: t) (auto simp: update_conv')

lemma map_of_assign: "map_of (assign t s) = map_of t ++ map_of s"
proof
  fix x
  show "map_of (assign t s) x = (map_of t ++ map_of s) x"
  proof (cases "map_of s x")
    case None
    then have "x \<notin> set (map fst s)" by (simp add: map_of_eq_None_iff)
    then show ?thesis using None by (simp add: assign_def map_of_fold_update map_add_def)
  next
    case (Some v)
    then have "x \<in> set (map fst s)" by (metis map_of_eq_None_iff option.distinct(1) set_map)
    then show ?thesis using Some
      by (simp add: assign_def map_of_fold_update map_add_def propOf_def)
  qed
qed

text \<open>
  Claim C4. As a map from keys to values, the context that \<open>buildContext\<close> returns is the
  page data, overridden in turn by the data files, the namespaced material data, the
  materials bucket, the views bucket, the docs bucket and the call-site hash (\<open>++\<close>
  gives its right operand precedence). For the page data \<open>{a: 1}\<close> and the hash
  \<open>{a: 2}\<close> the context has \<open>a = 2\<close>, whatever else is bound.
\<close>

theorem buildContext_precedence:
  "map_of (buildContext opts a (JObj pageData) (JObj extraHash))
     = map_of pageData ++ map_of (data a) ++ map_of (materialData a)
       ++ [keys_materials opts \<mapsto> JObj (materials a)]
       ++ [keys_views opts \<mapsto> JObj (views a)]
       ++ [keys_docs opts \<mapsto> JObj (docs a)]
       ++ map_of extraHash
   \<and> propOf (buildContext opts a (JObj [(''a'', JNum 1)]) (JObj [(''a'', JNum 2)])) ''a'' = JNum 2"
proof -
  have m: "map_of (buildContext opts a (JObj p) (JObj h))
     = map_of p ++ map_of (data a) ++ map_of (materialData a)
       ++ [keys_materials opts \<mapsto> JObj (materials a)]
       ++ [keys_views opts \<mapsto> JObj (views a)]
       ++ [keys_docs opts \<mapsto> JObj (docs a)]
       ++ map_of h" for p h
    by (simp add: buildContext_def map_of_assign objProps_def)
  have "propOf (buildContext opts a (JObj [(''a'', JNum 1)]) (JObj [(''a'', JNum 2)])) ''a'' = JNum 2"
    by (simp add: propOf_def m)
  then show ?thesis using m by blast
qed

section \<open>Properties of the error handler\<close>

lemma handleError_enumerable_message:
  assumes "map_of (enumerable e) ''message'' = Some m" "onError opts"
  shows "\<exists>err. hd (handleError opts e) = OnError err \<and> propOf err ''message'' = m"
  using assms by (simp add: handleError_def Let_def propOf_def map_of_assign map_add_def)

lemma handleError_hidden_message:
  assumes "map_of (enumerable e) ''message'' = None" "onError opts"
  shows "\<exists>err. hd (handleError opts e) = OnError err
           \<and> propOf err ''message'' = JStr ''An error occurred''"
  using assms by (simp add: handleError_def Let_def propOf_def map_of_assign map_add_def)

lemma handleError_logged:
  assumes "logErrors opts"
  shows "ConsoleError (errorLine e) (exnProp e ''stack'') \<in> set (handleError opts e)"
  using assms by (simp add: handleError_def Let_def)

text \<open>
  Claim C8. For an error made by \<open>new Error('boom')\<close> the object passed to
  \<open>options.onError\<close> has the message \<open>An error occurred\<close>: \<open>_.assign\<close> copies the
  enumerable properties only, and the message of such an error is not one of them. The
  logged line does carry \<open>boom\<close>.
\<close>

theorem handleError_native_error:
  "handleError (defaults\<lparr> onError := True \<rparr>) (nativeError ''boom'' ''at setup'')
     = [OnError [(''name'', JStr ''Error''), (''reason'', JStr []),
                 (''message'', JStr ''An error occurred'')]]
   \<and> handleError (defaults\<lparr> logErrors := True \<rparr>) (nativeError ''boom'' ''at setup'')
     = [ConsoleError (''Error (fabricator-assemble): boom'' @ [CHR 0x0A]) (JStr ''at setup'')]"
  by code_simp

section \<open>Properties of the Field Namespacer\<close>

lemma bindE_Inr_iff: "bindE m f = Inr y \<longleftrightarrow> (\<exists>x. m = Inr x \<and> f x = Inr y)"
  by (cases m) (simp_all add: bindE_def)

lemma replaceFields_skip: "replaceFields key i n s = replaceFields key i 0 (drop n s)"
proof (induction n arbitrary: s)
  case 0
  show ?case by simp
next
  case (Suc n)
  then show ?case by (cases s) simp_all
qed

lemma closeToken_braces: "closeToken ''}}'' = Some ([], 2)"
  by (simp add: closeToken_def isSpace_def)

lemma lazyRepeat_run:
  assumes "k \<noteq> CHR ''}''" "\<not> isSpace k"
  shows "lazyRepeat k (replicate (Suc n) k @ ''}}'') = Some (replicate (Suc n) k, n + 3)"
proof (induction n)
  case 0
  show ?case by (simp add: closeToken_braces)
next
  case (Suc n)
  have "closeToken (replicate (Suc n) k @ ''}}'') = None"
    using assms by (simp add: closeToken_def)
  then show ?case using Suc by simp
qed

text \<open>
  Claim C2. With the field \<open>title\<close>, the token \<open>{{title}}\<close> is rewritten, and so is
  every token \<open>{{titlee\<dots>e}}\<close> whose name repeats the last character of the field name:
  \<open>{{titlee}}\<close> becomes \<open>{{buttons-primary.titlee}}\<close>, where the claim says that a
  token whose name extends a field name is never rewritten.
\<close>

theorem namespaceField_repeats_last_character:
  "namespaceField ''buttons-primary'' ''title'' (''{{titl'' @ replicate (Suc n) CHR ''e'' @ ''}}'')
     = Inr (''{{buttons-primary.titl'' @ replicate (Suc n) CHR ''e'' @ ''}}'')
   \<and> namespaceFields ''buttons-primary'' [(''title'', JStr ''X'')] ''{{titlee}}''
     = Inr ''{{buttons-primary.titlee}}''"
proof -
  let ?es = "replicate (Suc n) CHR ''e''"
  have lr: "lazyRepeat CHR ''e'' (?es @ ''}}'') = Some (?es, n + 3)"
    by (rule lazyRepeat_run) (simp_all add: isSpace_def)
  have mk: "matchKey ''title'' (''titl'' @ ?es @ ''}}'') = Some (''titl'' @ ?es, n + 7)"
    using lr by (simp add: matchKey_def)
  have mp: "matchP2 ''title'' (''titl'' @ ?es @ ''}}'') = Some (''titl'' @ ?es, n + 7)"
    using mk by (simp add: matchP2_def isSpace_def)
  have mt: "matchToken ''title'' (''{{titl'' @ ?es @ ''}}'') = Some (''{{'', ''titl'' @ ?es, n + 9)"
    using mp by (simp add: matchToken_def)
  have fl: "filter (\<lambda>x. \<not> isSpace x) (''titl'' @ ?es) = ''titl'' @ ?es"
    by (simp add: isSpace_def)
  have "replaceFields ''title'' ''buttons-primary'' 0 (''{{titl'' @ ?es @ ''}}'')
      = ''{{'' @ ''buttons-primary'' @ ''.'' @ (''titl'' @ ?es) @ ''}}''
        @ replaceFields ''title'' ''buttons-primary'' (n + 9 - 1) (''{titl'' @ ?es @ ''}}'')"
    using mt fl by (simp del: replicate.simps)
  also have "replaceFields ''title'' ''buttons-primary'' (n + 9 - 1) (''{titl'' @ ?es @ ''}}'') = []"
    by (subst replaceFields_skip) simp
  finally have a: "namespaceField ''buttons-primary'' ''title'' (''{{titl'' @ ?es @ ''}}'')
     = Inr (''{{buttons-primary.titl'' @ ?es @ ''}}'')"
    by (simp add: namespaceField_def regexMeta_def)
  have b: "namespaceFields ''buttons-primary'' [(''title'', JStr ''X'')] ''{{titlee}}''
     = Inr ''{{buttons-primary.titlee}}''"
    by code_simp
  show ?thesis using a b by blast
qed

section \<open>Properties of the Material Registry\<close>

lemma namespace_title:
  "namespaceFields ''buttons-primary'' [(''title'', JStr ''X'')] ''Title: {{title}}''
     = Inr ''Title: {{buttons-primary.title}}''"
  by code_simp

lemma trim_title: "trimBlankLines ''Title: {{title}}'' = ''Title: {{title}}''"
  by code_simp

lemma dashed_id: "dashed ''buttons.primary'' = ''buttons-primary''"
  by code_simp

lemma omit_title: "omit [(''title'', JStr ''X'')] ''notes'' = [(''title'', JStr ''X'')]"
  by code_simp

lemma title_dirs:
  "dirsOf [''src/materials/components/'', ''src/materials/components/buttons/'']
     = Inr [''components'', ''buttons'']"
  by code_simp

lemma title_stub:
  "stubPass [''components'', ''buttons''] [titleFile] [] = Inr (materials titleRegistry)"
  by code_simp

lemma title_parent: "parentOf titleFile = Inr ''components''"
  by code_simp

lemma title_collection: "collectionOf titleFile = ''buttons''"
  by code_simp

lemma title_sub: "isSubCollection [''components'', ''buttons''] ''components''"
  by code_simp

lemma title_id: "materialId True ''buttons'' titleFile = ''buttons.primary''"
  by code_simp

lemma title_node:
  "itemNode w titleFile [(''title'', JStr ''X'')] ''primary'' = Inr titleNode"
proof -
  have ex: "isExcluded titleFile = False" by code_simp
  have tc: "toTitleCase ''primary'' = ''Primary''" by code_simp
  have om: "omit [(''title'', JStr ''X'')] ''notes'' = [(''title'', JStr ''X'')]" by code_simp
  show ?thesis
    by (simp add: itemNode_def renderNotes_def propOf_def truthy_def looseEqTrue_def bindE_def
        ex tc om titleNode_def)
qed

lemma title_second: "secondPart ''buttons.primary'' = Inr ''primary''"
  by code_simp

lemma title_stubSub:
  "stubSub ''components'' ''buttons'' titleFile (materials titleRegistry)
     = Inr [(''components'', JObj [(''name'', JStr ''Components''),
         (''items'', JObj [(''buttons'', JObj [(''name'', JStr ''Buttons''),
            (''items'', JObj []), (''exclude'', JBool False)])]),
         (''exclude'', JBool False)])]"
  by code_simp

lemma title_store:
  "storeSubItem w titleFile [(''title'', JStr ''X'')] ''buttons.primary'' ''components''
     ''buttons'' ''buttons.primary''
     [(''components'', JObj [(''name'', JStr ''Components''),
         (''items'', JObj [(''buttons'', JObj [(''name'', JStr ''Buttons''),
            (''items'', JObj []), (''exclude'', JBool False)])]),
         (''exclude'', JBool False)])]
   = Inr titleMaterials"
  by (simp add: storeSubItem_def title_node title_second getMember_def setMember_def propOf_def
      bindE_def titleMaterials_def)

lemma title_populate:
  assumes "getMatter w titleFile = Inr titleMatter"
  shows "populateFile w opts [''components'', ''buttons''] titleFile (st\<lparr> materials := materials titleRegistry \<rparr>)
    = Inr (st\<lparr> materials := titleMaterials,
             materialData := AList.update ''buttons-primary'' (JObj [(''title'', JStr ''X'')])
                (materialData st),
             partials := AList.update ''buttons.primary''
                (decorate opts ''buttons.primary'' ''Title: {{buttons-primary.title}}'')
                (partials st) \<rparr>)"
  by (simp add: populateFile_def assms title_parent title_collection title_sub title_id
      titleMatter_def title_stubSub title_store omit_title trim_title dashed_id namespace_title
      bindE_def Let_def)

lemma title_lookup:
  "lookupItem True ''components'' ''buttons'' ''buttons.primary'' titleMaterials = Inr titleNode"
  by code_simp

lemma title_bundle:
  assumes "materials st = titleMaterials"
  shows "bundleFile w opts [''components'', ''buttons''] st titleFile fs = Inr fs"
proof -
  have t: "truthy titleNode" by code_simp
  have b: "getMember titleNode ''bundle'' = Inr (JBool False)" by code_simp
  show ?thesis
    by (simp add: bundleFile_def title_parent title_collection title_sub title_id assms
        title_lookup t b truthy_def bindE_def Let_def)
qed

lemma title_run:
  assumes "getMatter w titleFile = Inr titleMatter"
  shows "parseMaterials w opts [titleFile]
     [''src/materials/components/'', ''src/materials/components/buttons/''] st fs
   = Inr (st\<lparr> materials := titleMaterials,
             materialData := AList.update ''buttons-primary'' (JObj [(''title'', JStr ''X'')])
                (materialData st),
             partials := AList.update ''buttons.primary''
                (decorate opts ''buttons.primary'' ''Title: {{buttons-primary.title}}'')
                (partials st) \<rparr>, fs)"
  by (simp add: parseMaterials_def title_dirs title_stub populatePass_def bundlePass_def
      title_populate[OF assms] title_bundle bindE_def Let_def)


text \<open>
  Claim C1. Let the front matter of a file be \<open>{title: "X"}\<close> and its body
  \<open>Title: {{title}}\<close>. Whenever the second loop of \<open>parseMaterials\<close> processes such a
  file under the identifier \<open>buttons.primary\<close>, the partial registered under
  \<open>buttons.primary\<close> is \<open>Title: {{buttons-primary.title}}\<close> inside the wrappers the
  options ask for, so exactly that text with the default options (no wrapper), and the
  namespaced data has \<open>{title: "X"}\<close> at the key \<open>buttons-primary\<close>. For the file
  \<open>src/materials/components/buttons/primary.html\<close>, \<open>parseMaterials\<close> does return,
  from every state and with every option, and leaves that partial and that data.
\<close>

theorem material_round_trip:
  assumes fm: "getMatter w file = Inr titleMatter"
  shows "(parentOf file = Inr parent
            \<and> materialId (isSubCollection dirs parent) (collectionOf file) file = ''buttons.primary''
            \<and> populateFile w opts dirs file st = Inr st'
          \<longrightarrow> roundTrip opts st')
       \<and> (file = titleFile \<longrightarrow>
            (\<exists>st''. parseMaterials w opts [titleFile]
                      [''src/materials/components/'', ''src/materials/components/buttons/''] st fs
                    = Inr (st'', fs)
                  \<and> roundTrip opts st''))"
proof -
  have one: "roundTrip opts st'"
    if par: "parentOf file = Inr parent"
      and mid: "materialId (isSubCollection dirs parent) (collectionOf file) file
                  = ''buttons.primary''"
      and pop: "populateFile w opts dirs file st = Inr st'"
  proof -
    from pop obtain mats2 where
      st': "st' = st\<lparr> materials := mats2,
               materialData := AList.update ''buttons-primary'' (JObj [(''title'', JStr ''X'')])
                  (materialData st),
               partials := AList.update ''buttons.primary''
                  (decorate opts ''buttons.primary'' ''Title: {{buttons-primary.title}}'')
                  (partials st) \<rparr>"
      unfolding populateFile_def fm par
      by (auto simp: bindE_Inr_iff Let_def mid dashed_id omit_title trim_title namespace_title
          titleMatter_def)
    show ?thesis
      by (simp add: st' update_conv' decorate_def)
  qed
  have two: "\<exists>st''. parseMaterials w opts [titleFile]
                      [''src/materials/components/'', ''src/materials/components/buttons/''] st fs
                    = Inr (st'', fs)
                  \<and> roundTrip opts st''"
    if f: "file = titleFile"
  proof -
    let ?s = "st\<lparr> materials := titleMaterials,
               materialData := AList.update ''buttons-primary'' (JObj [(''title'', JStr ''X'')])
                  (materialData st),
               partials := AList.update ''buttons.primary''
                  (decorate opts ''buttons.primary'' ''Title: {{buttons-primary.title}}'')
                  (partials st) \<rparr>"
    have run: "parseMaterials w opts [titleFile]
                      [''src/materials/components/'', ''src/materials/components/buttons/''] st fs
                    = Inr (?s, fs)"
      using title_run fm f by simp
    have "roundTrip opts ?s"
      by (simp add: update_conv' decorate_def)
    then show ?thesis using run by blast
  qed
  show ?thesis using one two by blast
qed

theorem material_round_trip_witness:
  "getMatter (memWorld [(titleFile, titleMatter)]) titleFile = Inr titleMatter
   \<and> parentOf titleFile = Inr ''components''
   \<and> materialId (isSubCollection [''components'', ''buttons''] ''components'')
        (collectionOf titleFile) titleFile = ''buttons.primary''
   \<and> \<not> isl (populateFile (memWorld [(titleFile, titleMatter)]) defaults
        [''components'', ''buttons''] titleFile titleRegistry)
   \<and> map_of (partials (projr (populateFile (memWorld [(titleFile, titleMatter)]) defaults
        [''components'', ''buttons''] titleFile titleRegistry))) ''buttons.primary''
       = Some ''Title: {{buttons-primary.title}}''
   \<and> map_of (materialData (projr (populateFile (memWorld [(titleFile, titleMatter)]) defaults
        [''components'', ''buttons''] titleFile titleRegistry))) ''buttons-primary''
       = Some (JObj [(''title'', JStr ''X'')])
   \<and> \<not> isl (parseMaterials (memWorld [(titleFile, titleMatter)]) defaults [titleFile]
        [''src/materials/components/'', ''src/materials/components/buttons/''] emptyRegistry [])
   \<and> map_of (partials (fst (projr (parseMaterials (memWorld [(titleFile, titleMatter)]) defaults
        [titleFile] [''src/materials/components/'', ''src/materials/components/buttons/'']
        emptyRegistry [])))) ''buttons.primary''
       = Some ''Title: {{buttons-primary.title}}''
   \<and> map_of (materialData (fst (projr (parseMaterials (memWorld [(titleFile, titleMatter)])
        defaults [titleFile]
        [''src/materials/components/'', ''src/materials/components/buttons/'']
        emptyRegistry [])))) ''buttons-primary''
       = Some (JObj [(''title'', JStr ''X'')])"
proof -
  let ?w = "memWorld [(titleFile, titleMatter)]"
  let ?r = "populateFile ?w defaults [''components'', ''buttons''] titleFile titleRegistry"
  have fm: "getMatter ?w titleFile = Inr titleMatter"
    by code_simp
  have par: "parentOf titleFile = Inr ''components''"
    by code_simp
  have mid: "materialId (isSubCollection [''components'', ''buttons''] ''components'')
        (collectionOf titleFile) titleFile = ''buttons.primary''"
    by code_simp
  have ok: "\<not> isl ?r"
    by code_simp
  then obtain st' where pop: "?r = Inr st'"
    by (cases ?r) auto
  have flags: "\<not> wrapAndHardResetMaterials defaults" "\<not> encloseInComments defaults"
    by (simp_all add: defaults_def)
  note t = material_round_trip[OF fm, where parent = "''components''"
      and dirs = "[''components'', ''buttons'']" and opts = defaults and st = titleRegistry
      and st' = st' and fs = "[]"]
  note u = material_round_trip[OF fm, where opts = defaults and st = emptyRegistry
      and fs = "[]"]
  from u obtain st'' where run: "parseMaterials ?w defaults [titleFile]
        [''src/materials/components/'', ''src/materials/components/buttons/''] emptyRegistry []
      = Inr (st'', [])" and rt: "roundTrip defaults st''"
    by blast
  have a: "roundTrip defaults st'" using t par mid pop by blast
  show ?thesis
    using a rt run fm par mid ok pop flags by (simp add: decorate_def)
qed





text \<open>The object of a material is built unless its notes are there and their rendering fails.\<close>

lemma itemNode_fails_iff:
  "isl (itemNode w file fmd nm)
     \<longleftrightarrow> truthy (propOf fmd ''notes'') \<and> isl (md_render w (propOf fmd ''notes''))"
  by (cases "md_render w (propOf fmd ''notes'')")
    (simp_all add: itemNode_def renderNotes_def bindE_def)




text \<open>
  Claim C10. For \<open>src/materials/v1.2/buttons/primary.html\<close> the first loop tests
  \<open>getName(parent)\<close>, which is \<open>v1\<close> and not among the directories, and stubs
  \<open>buttons\<close>; the second loop tests \<open>parent\<close>, which is \<open>v1.2\<close> and among them, and
  reads \<open>assembly.materials['v1.2'].items\<close>, a property of \<open>undefined\<close>.
\<close>

theorem stub_and_populate_disagree:
  "dirsOf [''src/materials/v1.2/'', ''src/materials/v1.2/buttons/''] = Inr [''v1.2'', ''buttons'']
   \<and> parentOf ''src/materials/v1.2/buttons/primary.html'' = Inr ''v1.2''
   \<and> \<not> stubSubCollection [''v1.2'', ''buttons''] ''v1.2''
   \<and> isSubCollection [''v1.2'', ''buttons''] ''v1.2''
   \<and> stubPass [''v1.2'', ''buttons''] [''src/materials/v1.2/buttons/primary.html''] []
       = Inr [(''buttons'', stubObject ''buttons'' ''src/materials/v1.2/buttons'')]
   \<and> parseMaterials
        (memWorld [(''src/materials/v1.2/buttons/primary.html'',
                    \<lparr> fm_data = [], fm_content = ''<button/>'' \<rparr>)])
        defaults [''src/materials/v1.2/buttons/primary.html'']
        [''src/materials/v1.2/'', ''src/materials/v1.2/buttons/''] emptyRegistry []
       = Inl (TypeError ''Cannot read property items of undefined'')"
  by code_simp

section \<open>Properties of the Bundler\<close>

lemma tryCopy_missing: "isl (readFileSync w fs source) \<Longrightarrow> tryCopy w source target fs = fs"
  by (cases "readFileSync w fs source") (simp_all add: tryCopy_def)

lemma fold_tryCopy_missing:
  "list_all (\<lambda>(source, target). isl (readFileSync w fs source)) pairs
     \<Longrightarrow> fold (\<lambda>(source, target). tryCopy w source target) pairs fs = fs"
  by (induction pairs) (auto simp: tryCopy_missing)

lemma demo_parse:
  "parseMaterials demoWorld defaults [demoFile] [''src/materials/buttons/''] emptyRegistry []
     = Inr (demoRegistry, [(''dist/bundles/primary/primary.html'', ''{{> primary }}'')])"
  by code_simp

text \<open>
  Claim C9. Take a file whose stored object has a true \<open>bundle\<close> flag, and let the
  collaborators do their part for the rendered file (the file is read, the directory made,
  the template rendered, the file written, giving the file system \<open>fs2\<close>). Then the third
  loop's callback writes that file, and its result is determined by \<open>fs2\<close> and the six
  guarded copies, which cannot fail: it is an error only if the legacy export runs and
  fails. When the read of every one of the six assets fails, the copies leave the file
  system as the write of the rendered file left it.
\<close>

theorem bundle_survives_missing_assets:
  assumes par: "parentOf file = Inr parent"
    and key: "key = materialId (isSubCollection dirs parent) (collectionOf file) file"
    and look: "lookupItem (isSubCollection dirs parent) parent (collectionOf file) key (materials st)
                 = Inr item"
    and flag: "truthy item" "getMember item ''bundle'' = Inr b" "truthy b"
    and read: "getMatter w file = Inr pageMatter"
    and path: "bundlePath opts file item = Inr filePath"
    and mk: "mkdirp_sync w fs (dirname filePath) = Inr fs1"
    and render: "hb_render w (partials st) (''{{> '' @ key @ '' }}'')
                   (buildContext opts st item JUndefined) = Inr html"
    and wr: "writeFileSync w fs1 filePath html = Inr fs2"
    and dv: "getMember item ''data'' = Inr dv" "getMember dv ''websphere'' = Inr ws"
  shows "writeBundle w opts st file key item fs = Inr fs2
       \<and> bundleFile w opts dirs st file fs
           = (if truthy ws \<and> has (data st) ''globals''
              then legacy_export w st item file (copyAssets w opts (bundleBaseName file) fs2)
              else Inr (copyAssets w opts (bundleBaseName file) fs2))
       \<and> (list_all (\<lambda>(source, target). isl (readFileSync w fs2 source))
             (assetPairs opts (bundleBaseName file))
           \<longrightarrow> copyAssets w opts (bundleBaseName file) fs2 = fs2)"
proof -
  have w: "writeBundle w opts st file key item fs = Inr fs2"
    using render by (simp add: writeBundle_def read path mk wr bindE_def Let_def)
  have i: "bundleItem w opts st file key item fs
           = (if truthy ws \<and> has (data st) ''globals''
              then legacy_export w st item file (copyAssets w opts (bundleBaseName file) fs2)
              else Inr (copyAssets w opts (bundleBaseName file) fs2))"
    by (simp add: bundleItem_def w dv bindE_def Let_def)
  have f: "bundleFile w opts dirs st file fs = bundleItem w opts st file key item fs"
    using look flag by (simp add: bundleFile_def par key[symmetric] bindE_def Let_def)
  have c: "list_all (\<lambda>(source, target). isl (readFileSync w fs2 source))
             (assetPairs opts (bundleBaseName file))
           \<longrightarrow> copyAssets w opts (bundleBaseName file) fs2 = fs2"
    by (simp add: copyAssets_def fold_tryCopy_missing)
  show ?thesis using w i f c by simp
qed

theorem bundle_survives_missing_assets_witness:
  "parentOf demoFile = Inr ''materials''
   \<and> lookupItem False ''materials'' ''buttons'' ''primary'' (materials demoRegistry) = Inr demoItem
   \<and> truthy demoItem
   \<and> getMember demoItem ''bundle'' = Inr (JBool True)
   \<and> bundlePath defaults demoFile demoItem = Inr ''dist/bundles/primary/primary.html''
   \<and> list_all (\<lambda>(source, target). isl (readFileSync demoWorld
          [(''dist/bundles/primary/primary.html'', ''{{> primary }}'')] source))
        (assetPairs defaults (bundleBaseName demoFile))
   \<and> bundleFile demoWorld defaults [''buttons''] demoRegistry demoFile []
       = Inr [(''dist/bundles/primary/primary.html'', ''{{> primary }}'')]"
proof -
  let ?fs2 = "[(''dist/bundles/primary/primary.html'', ''{{> primary }}'')]"
  have par: "parentOf demoFile = Inr ''materials''"
    by code_simp
  have key: "''primary'' = materialId (isSubCollection [''buttons''] ''materials'')
      (collectionOf demoFile) demoFile"
    by code_simp
  have sub: "isSubCollection [''buttons''] ''materials'' = False"
    "collectionOf demoFile = ''buttons''"
    by code_simp+
  have look: "lookupItem False ''materials'' ''buttons'' ''primary'' (materials demoRegistry)
      = Inr demoItem"
    by code_simp
  have flag: "truthy demoItem" "getMember demoItem ''bundle'' = Inr (JBool True)"
    "truthy (JBool True)"
    by code_simp+
  have read: "getMatter demoWorld demoFile
      = Inr \<lparr> fm_data = [(''bundle'', JBool True)], fm_content = ''<button/>'' \<rparr>"
    by code_simp
  have path: "bundlePath defaults demoFile demoItem = Inr ''dist/bundles/primary/primary.html''"
    by code_simp
  have mk: "mkdirp_sync demoWorld [] (dirname ''dist/bundles/primary/primary.html'') = Inr []"
    by code_simp
  have render: "hb_render demoWorld (partials demoRegistry) (''{{> '' @ ''primary'' @ '' }}'')
                   (buildContext defaults demoRegistry demoItem JUndefined) = Inr ''{{> primary }}''"
    by code_simp
  have wr: "writeFileSync demoWorld [] ''dist/bundles/primary/primary.html'' ''{{> primary }}''
      = Inr ?fs2"
    by code_simp
  have dv: "getMember demoItem ''data'' = Inr (JObj [(''bundle'', JBool True)])"
    "getMember (JObj [(''bundle'', JBool True)]) ''websphere'' = Inr JUndefined"
    by code_simp+
  have missing: "list_all (\<lambda>(source, target). isl (readFileSync demoWorld ?fs2 source))
        (assetPairs defaults (bundleBaseName demoFile))"
    by code_simp
  have nt: "\<not> truthy JUndefined"
    by code_simp
  note t = bundle_survives_missing_assets[where dirs = "[''buttons'']" and st = demoRegistry,
      OF par key _ flag read path mk render wr dv]
  show ?thesis using t look sub par flag path missing nt by simp
qed

end
